theory Spec2Isabelle
  imports Complex_Main "HOL-Library.Sublist"
begin

section \<open>Python strings\<close>

text \<open>
  Column names and aliases are Python \<open>str\<close> values, modelled as \<^typ>\<open>string\<close> with one
  character for one code point; the model covers the code points below 256 (Latin-1).
  \<open>str.lower\<close> folds the letters A to Z and the accented capitals 0xC0 to 0xDE (0xD7, the
  multiplication sign, is no letter); \<open>str.strip\<close> removes the white space of this range at
  both ends; \<open>sub in s\<close> is \<open>contains s sub\<close>.
\<close>

definition ascii_upper :: string where
  "ascii_upper = ''ABCDEFGHIJKLMNOPQRSTUVWXYZ''"

definition ascii_lower :: string where
  "ascii_lower = ''abcdefghijklmnopqrstuvwxyz''"

definition latin_upper :: string where
  "latin_upper =
     [CHR 0xC0, CHR 0xC1, CHR 0xC2, CHR 0xC3, CHR 0xC4, CHR 0xC5, CHR 0xC6, CHR 0xC7,
      CHR 0xC8, CHR 0xC9, CHR 0xCA, CHR 0xCB, CHR 0xCC, CHR 0xCD, CHR 0xCE, CHR 0xCF,
      CHR 0xD0, CHR 0xD1, CHR 0xD2, CHR 0xD3, CHR 0xD4, CHR 0xD5, CHR 0xD6, CHR 0xD8,
      CHR 0xD9, CHR 0xDA, CHR 0xDB, CHR 0xDC, CHR 0xDD, CHR 0xDE]"

definition latin_lower :: string where
  "latin_lower =
     [CHR 0xE0, CHR 0xE1, CHR 0xE2, CHR 0xE3, CHR 0xE4, CHR 0xE5, CHR 0xE6, CHR 0xE7,
      CHR 0xE8, CHR 0xE9, CHR 0xEA, CHR 0xEB, CHR 0xEC, CHR 0xED, CHR 0xEE, CHR 0xEF,
      CHR 0xF0, CHR 0xF1, CHR 0xF2, CHR 0xF3, CHR 0xF4, CHR 0xF5, CHR 0xF6, CHR 0xF8,
      CHR 0xF9, CHR 0xFA, CHR 0xFB, CHR 0xFC, CHR 0xFD, CHR 0xFE]"

definition case_table :: "(char \<times> char) list" where
  "case_table = zip (ascii_upper @ latin_upper) (ascii_lower @ latin_lower)"

definition lower_char :: "char \<Rightarrow> char" where
  "lower_char c = (case map_of case_table c of None \<Rightarrow> c | Some d \<Rightarrow> d)"

definition lower :: "string \<Rightarrow> string" where
  "lower s = map lower_char s"

definition is_space :: "char \<Rightarrow> bool" where
  "is_space c = (c \<in> set [CHR '' '', CHR 0x09, CHR 0x0A, CHR 0x0B, CHR 0x0C, CHR 0x0D,
                            CHR 0x1C, CHR 0x1D, CHR 0x1E, CHR 0x1F, CHR 0x85, CHR 0xA0])"

definition strip :: "string \<Rightarrow> string" where
  "strip s = rev (dropWhile is_space (rev (dropWhile is_space s)))"

fun starts_with :: "string \<Rightarrow> string \<Rightarrow> bool" where
  "starts_with s [] = True"
| "starts_with [] (y # ys) = False"
| "starts_with (x # xs) (y # ys) = (x = y \<and> starts_with xs ys)"

fun contains :: "string \<Rightarrow> string \<Rightarrow> bool" where
  "contains [] sub = (sub = [])"
| "contains (x # xs) sub = (starts_with (x # xs) sub \<or> contains xs sub)"


section \<open>The holdings table\<close>

text \<open>
  A pandas \<open>DataFrame\<close> is an ordered list of named columns of equal length with
  pairwise distinct names. A cell is missing (\<open>NaN\<close>, \<open>None\<close>, \<open>NaT\<close>), a number, a
  text or a timestamp (nanoseconds since the epoch). Numbers are exact rationals:
  rounding and overflow of \<open>float64\<close> are not modelled.
\<close>

datatype cell = NA | Num rat | Str string | TS int

datatype dtype = Float | Object | Datetime | Category

record column =
  cname :: string
  ctype :: dtype
  cells :: "cell list"

type_synonym dataframe = "column list"

definition columns :: "dataframe \<Rightarrow> string list" where
  "columns d = map cname d"

definition nrows :: "dataframe \<Rightarrow> nat" where
  "nrows d = (case d of [] \<Rightarrow> 0 | c # _ \<Rightarrow> length (cells c))"

text \<open>\<open>df[n]\<close> for reading: \<open>None\<close> stands for the \<open>KeyError\<close> of an absent column.\<close>

definition get_col :: "dataframe \<Rightarrow> string \<Rightarrow> column option" where
  "get_col d n = find (\<lambda>c. cname c = n) d"

text \<open>\<open>df[n] = values\<close>: an existing column is replaced in place, a new one is appended.\<close>

definition set_col :: "dataframe \<Rightarrow> string \<Rightarrow> dtype \<Rightarrow> cell list \<Rightarrow> dataframe" where
  "set_col d n ty vs =
     (if n \<in> set (columns d)
      then map (\<lambda>c. if cname c = n then c\<lparr>ctype := ty, cells := vs\<rparr> else c) d
      else d @ [\<lparr>cname = n, ctype = ty, cells = vs\<rparr>])"


section \<open>Column resolver\<close>

definition alias_map :: "string \<Rightarrow> string list" where
  "alias_map category =
     (if category = ''rating''
        then [''Rating'', ''Composite Rating'', ''Moody'', ''S&P'', ''Fitch'', ''MSCI'']
      else if category = ''sector''
        then [''Sector'', ''Issuer Sector'', ''Industry'', ''GICS Sector'']
      else if category = ''issuer''
        then [''Issuer Name'', ''Issuer'', ''Security Name'', ''Description'', ''Ticker'']
      else if category = ''currency''
        then [''Currency'', ''Ccy'', ''Base Currency'', ''Trade Currency'']
      else [])"

text \<open>\<open>_find_cols\<close>: the list comprehension over \<open>self.df.columns\<close>.\<close>

definition find_cols :: "dataframe \<Rightarrow> string \<Rightarrow> string list" where
  "find_cols d category =
     filter (\<lambda>c. list_ex (\<lambda>alias. contains (lower c) (lower alias)) (alias_map category))
       (columns d)"

text \<open>\<open>_get_primary_col\<close>: \<open>cols[0] if cols else None\<close>.\<close>

definition get_primary_col :: "string list \<Rightarrow> string option" where
  "get_primary_col cols = (case cols of [] \<Rightarrow> None | c # _ \<Rightarrow> Some c)"


section \<open>Construction\<close>

text \<open>
  \<open>pd.to_numeric(errors="coerce")\<close> and \<open>pd.to_datetime(errors="coerce")\<close> are library
  conversions of one value; they are parameters of the model. \<open>None\<close> is \<open>NaN\<close>, respectively
  \<open>NaT\<close>; a timestamp is a number of nanoseconds since the epoch.
\<close>

text \<open>The exceptions of the model.\<close>

datatype error = KeyError | TypeError

record conv =
  to_numeric :: "cell \<Rightarrow> rat option"
  to_datetime :: "cell \<Rightarrow> int option"

record analyzer =
  df :: dataframe
  name :: string
  rating_cols :: "string list"
  sector_col :: "string option"
  issuer_col :: "string option"
  currency_col :: "string option"

definition float_cell :: "rat option \<Rightarrow> cell" where
  "float_cell v = (case v of None \<Rightarrow> NA | Some r \<Rightarrow> Num r)"

definition ts_cell :: "int option \<Rightarrow> cell" where
  "ts_cell v = (case v of None \<Rightarrow> NA | Some t \<Rightarrow> TS t)"

text \<open>
  \<open>__init__\<close>. \<open>init\<close> is the object the constructor builds: the copy of the caller's frame
  with stripped column names; the resolved columns; the coercion of ``Market Value'' when that
  column is present. \<open>construct\<close> is the call: when two columns are named ``Market Value''
  after stripping, \<open>self.df["Market Value"]\<close> is a frame, \<open>pd.to_numeric\<close> raises
  \<open>TypeError\<close> and no object is built.
\<close>

definition init :: "conv \<Rightarrow> dataframe \<Rightarrow> string \<Rightarrow> analyzer" where
  "init P d nm =
     (let d1 = map (\<lambda>c. c\<lparr>cname := strip (cname c)\<rparr>) d;
          d2 = (case get_col d1 ''Market Value'' of
                  None \<Rightarrow> d1
                | Some c \<Rightarrow> set_col d1 ''Market Value'' Float
                             (map (\<lambda>v. float_cell (to_numeric P v)) (cells c)))
      in \<lparr>df = d2, name = nm,
          rating_cols = find_cols d1 ''rating'',
          sector_col = get_primary_col (find_cols d1 ''sector''),
          issuer_col = get_primary_col (find_cols d1 ''issuer''),
          currency_col = get_primary_col (find_cols d1 ''currency'')\<rparr>)"



section \<open>Numbers, errors and series\<close>

text \<open>The result of a float division: finite, an infinity, or \<open>NaN\<close>.\<close>

datatype flt = Fin rat | PInf | NInf | NaN

definition fdiv :: "rat \<Rightarrow> rat \<Rightarrow> flt" where
  "fdiv x y = (if y \<noteq> 0 then Fin (x / y)
               else if x > 0 then PInf else if x < 0 then NInf else NaN)"

fun fscale :: "flt \<Rightarrow> rat \<Rightarrow> flt" where
  "fscale (Fin x) c = Fin (x * c)"
| "fscale PInf c = (if c > 0 then PInf else if c < 0 then NInf else NaN)"
| "fscale NInf c = (if c > 0 then NInf else if c < 0 then PInf else NaN)"
| "fscale NaN c = NaN"

text \<open>
  A column read as \<open>float64\<close>: text and timestamps make the arithmetic of the methods
  raise \<open>TypeError\<close>.
\<close>

fun as_float :: "cell \<Rightarrow> error + rat option" where
  "as_float NA = Inr None"
| "as_float (Num r) = Inr (Some r)"
| "as_float (Str s) = Inl TypeError"
| "as_float (TS t) = Inl TypeError"

fun collect :: "('a \<Rightarrow> error + 'b) \<Rightarrow> 'a list \<Rightarrow> error + 'b list" where
  "collect f [] = Inr []"
| "collect f (x # xs) =
     (case f x of
        Inl e \<Rightarrow> Inl e
      | Inr y \<Rightarrow> (case collect f xs of Inl e \<Rightarrow> Inl e | Inr ys \<Rightarrow> Inr (y # ys)))"

definition numeric_col :: "dataframe \<Rightarrow> string \<Rightarrow> error + rat option list" where
  "numeric_col d n =
     (case get_col d n of None \<Rightarrow> Inl KeyError | Some c \<Rightarrow> collect as_float (cells c))"

text \<open>\<open>Series.sum()\<close> skips \<open>NaN\<close>; a product with \<open>NaN\<close> is \<open>NaN\<close>.\<close>

definition nansum :: "rat option list \<Rightarrow> rat" where
  "nansum vs = sum_list (map (\<lambda>v. case v of None \<Rightarrow> 0 | Some r \<Rightarrow> r) vs)"

definition mul :: "rat option \<Rightarrow> rat option \<Rightarrow> rat option" where
  "mul x y = (case x of None \<Rightarrow> None
              | Some a \<Rightarrow> (case y of None \<Rightarrow> None | Some b \<Rightarrow> Some (a * b)))"

text \<open>\<open>(xs * mv).sum() / mv.sum()\<close>\<close>

definition weighted_avg :: "rat option list \<Rightarrow> rat option list \<Rightarrow> flt" where
  "weighted_avg xs mv = fdiv (nansum (map (\<lambda>(x, w). mul x w) (zip xs mv))) (nansum mv)"

datatype series = Series (sname: "string option") (items: "(cell \<times> flt) list")


section \<open>Sorting\<close>

text \<open>
  A stable insertion sort by a strict order \<open>lt\<close>. The keys of a grouping are ordered numbers
  first, then timestamps, then texts by code point. \<open>sort_index()\<close> compares the labels with
  each other and raises \<open>TypeError\<close> when they are not of one kind (numbers with texts, or
  timestamps with either). \<open>sort_values(ascending=False)\<close> puts \<open>NaN\<close> last. The order among
  equal keys is the model's choice; no statement below depends on it.
\<close>

fun insort_by :: "('a \<Rightarrow> 'a \<Rightarrow> bool) \<Rightarrow> 'a \<Rightarrow> 'a list \<Rightarrow> 'a list" where
  "insort_by lt x [] = [x]"
| "insort_by lt x (y # ys) = (if lt y x then y # insort_by lt x ys else x # y # ys)"

definition sort_by :: "('a \<Rightarrow> 'a \<Rightarrow> bool) \<Rightarrow> 'a list \<Rightarrow> 'a list" where
  "sort_by lt xs = foldr (insort_by lt) xs []"

fun str_less :: "string \<Rightarrow> string \<Rightarrow> bool" where
  "str_less [] [] = False"
| "str_less [] (y # ys) = True"
| "str_less (x # xs) [] = False"
| "str_less (x # xs) (y # ys) =
     ((of_char x :: nat) < of_char y \<or> (x = y \<and> str_less xs ys))"

fun cell_less :: "cell \<Rightarrow> cell \<Rightarrow> bool" where
  "cell_less (Num a) (Num b) = (a < b)"
| "cell_less (Num a) c = (c \<noteq> NA)"
| "cell_less (TS a) (TS b) = (a < b)"
| "cell_less (TS a) (Str s) = True"
| "cell_less (Str a) (Str b) = str_less a b"
| "cell_less c c' = False"

fun flt_less :: "flt \<Rightarrow> flt \<Rightarrow> bool" where
  "flt_less (Fin a) (Fin b) = (a < b)"
| "flt_less (Fin a) PInf = True"
| "flt_less NInf (Fin b) = True"
| "flt_less NInf PInf = True"
| "flt_less x y = False"

fun cell_kind :: "cell \<Rightarrow> nat" where
  "cell_kind NA = 0"
| "cell_kind (Num r) = 1"
| "cell_kind (Str s) = 2"
| "cell_kind (TS t) = 3"

definition one_kind :: "cell list \<Rightarrow> bool" where
  "one_kind ks = (case ks of [] \<Rightarrow> True | k # rest \<Rightarrow> list_all (\<lambda>k'. cell_kind k' = cell_kind k) rest)"

definition sort_index :: "(cell \<times> 'v) list \<Rightarrow> error + (cell \<times> 'v) list" where
  "sort_index xs =
     (if one_kind (map fst xs) then Inr (sort_by (\<lambda>a b. cell_less (fst a) (fst b)) xs)
      else Inl TypeError)"

definition sort_values_desc :: "('k \<times> flt) list \<Rightarrow> ('k \<times> flt) list" where
  "sort_values_desc xs =
     sort_by (\<lambda>a b. snd a \<noteq> NaN \<and> (snd b = NaN \<or> flt_less (snd b) (snd a))) xs"


section \<open>Grouping\<close>

text \<open>
  \<open>df.groupby(key)["Market Value"].sum()\<close>: rows whose key is missing are dropped (the
  default \<open>dropna=True\<close>), the groups are the distinct keys in ascending order, and the sum
  of a group skips \<open>NaN\<close>.
\<close>

definition group_rows :: "cell \<Rightarrow> (cell \<times> rat option) list \<Rightarrow> rat option list" where
  "group_rows k rows = map snd (filter (\<lambda>r. fst r = k) rows)"

definition groupby_sum :: "cell list \<Rightarrow> rat option list \<Rightarrow> (cell \<times> rat) list" where
  "groupby_sum keys vals =
     (let rows = filter (\<lambda>r. fst r \<noteq> NA) (zip keys vals);
          ks = sort_by cell_less (remdups (map fst rows))
      in map (\<lambda>k. (k, nansum (group_rows k rows))) ks)"

definition group_mv :: "dataframe \<Rightarrow> string \<Rightarrow> error + (cell \<times> rat) list" where
  "group_mv d key =
     (case get_col d key of
        None \<Rightarrow> Inl KeyError
      | Some k \<Rightarrow>
          (case numeric_col d ''Market Value'' of
             Inl e \<Rightarrow> Inl e
           | Inr mv \<Rightarrow> Inr (groupby_sum (cells k) mv)))"

text \<open>\<open>dist / dist.sum() * 100\<close>\<close>

definition percent :: "(cell \<times> rat) list \<Rightarrow> (cell \<times> flt) list" where
  "percent gs =
     map (\<lambda>g. (fst g, fscale (fdiv (snd g) (sum_list (map snd gs))) 100)) gs"

section \<open>Query methods\<close>

subsection \<open>Summary and duration\<close>

definition ns_per_day :: int where
  "ns_per_day = 86400000000000"

text \<open>\<open>(pd.to_datetime(v, errors="coerce") - today).days\<close> for one cell: whole days, rounded down.\<close>

definition days_until :: "conv \<Rightarrow> int \<Rightarrow> cell \<Rightarrow> int option" where
  "days_until P today v =
     (case to_datetime P v of None \<Rightarrow> None | Some t \<Rightarrow> Some ((t - today) div ns_per_day))"







subsection \<open>Composite rating\<close>

definition priority :: "string list" where
  "priority = [''Fitch'', ''Moody'', ''S&P'', ''MSCI'']"

text \<open>
  A row of the frame, as \<open>row[col]\<close> reads it: \<open>None\<close> is the \<open>KeyError\<close> of a column the
  frame does not have.
\<close>

definition row_at :: "dataframe \<Rightarrow> nat \<Rightarrow> string \<Rightarrow> cell option" where
  "row_at d i col =
     (case get_col d col of
        None \<Rightarrow> None
      | Some c \<Rightarrow> if i < length (cells c) then Some (cells c ! i) else None)"

text \<open>The inner loop of \<open>pick_rating\<close> for one agency \<open>p\<close>; \<open>Inr None\<close> is falling through.\<close>

fun scan_cols :: "(string \<Rightarrow> cell option) \<Rightarrow> string \<Rightarrow> string list \<Rightarrow> error + cell option" where
  "scan_cols row p [] = Inr None"
| "scan_cols row p (col # cols) =
     (if contains (lower col) (lower p)
      then (case row col of
              None \<Rightarrow> Inl KeyError
            | Some v \<Rightarrow> if v \<noteq> NA then Inr (Some v) else scan_cols row p cols)
      else scan_cols row p cols)"

text \<open>The outer loop over the agencies; the final \<open>return None\<close> is a missing value.\<close>

fun pick_loop :: "(string \<Rightarrow> cell option) \<Rightarrow> string list \<Rightarrow> string list \<Rightarrow> error + cell" where
  "pick_loop row rcols [] = Inr NA"
| "pick_loop row rcols (p # ps) =
     (case scan_cols row p rcols of
        Inl e \<Rightarrow> Inl e
      | Inr (Some v) \<Rightarrow> Inr v
      | Inr None \<Rightarrow> pick_loop row rcols ps)"

definition pick_rating :: "analyzer \<Rightarrow> (string \<Rightarrow> cell option) \<Rightarrow> error + cell" where
  "pick_rating a row = pick_loop row (rating_cols a) priority"

text \<open>
  The dtype pandas infers for the values that \<open>apply\<close> returns; on a frame with no rows the
  stored column is an empty \<open>float64\<close> column.
\<close>

definition infer_dtype :: "cell list \<Rightarrow> dtype" where
  "infer_dtype vs =
     (if vs = [] then Float
      else if list_all (\<lambda>v. v = NA) vs then Object
      else if list_all (\<lambda>v. case v of NA \<Rightarrow> True | Num r \<Rightarrow> True | _ \<Rightarrow> False) vs then Float
      else if list_all (\<lambda>v. case v of NA \<Rightarrow> True | TS t \<Rightarrow> True | _ \<Rightarrow> False) vs then Datetime
      else Object)"

text \<open>
  \<open>combined_rating\<close>: \<open>self.df.apply(pick_rating, axis=1)\<close> is the row-wise map; the
  assignment happens only when no row raised.
\<close>

definition combined_rating :: "analyzer \<Rightarrow> (error + string option) \<times> analyzer" where
  "combined_rating a =
     (if rating_cols a = [] then (Inr None, a)
      else (case collect (\<lambda>i. pick_rating a (row_at (df a) i)) [0..<nrows (df a)] of
              Inl e \<Rightarrow> (Inl e, a)
            | Inr vs \<Rightarrow>
                (Inr (Some ''Composite Rating''),
                 a\<lparr>df := set_col (df a) ''Composite Rating'' (infer_dtype vs) vs\<rparr>)))"


subsection \<open>Distributions\<close>

definition label_sorted :: "dataframe \<Rightarrow> string \<Rightarrow> error + series" where
  "label_sorted d key =
     (case group_mv d key of
        Inl e \<Rightarrow> Inl e
      | Inr gs \<Rightarrow>
          (case sort_index (percent gs) of
             Inl e \<Rightarrow> Inl e
           | Inr xs \<Rightarrow> Inr (Series (Some ''Market Value'') xs)))"

definition value_sorted :: "dataframe \<Rightarrow> string \<Rightarrow> error + series" where
  "value_sorted d key =
     (case group_mv d key of
        Inl e \<Rightarrow> Inl e
      | Inr gs \<Rightarrow> Inr (Series (Some ''Market Value'') (sort_values_desc (percent gs))))"

definition credit_distribution :: "analyzer \<Rightarrow> (error + series) \<times> analyzer" where
  "credit_distribution a =
     (case combined_rating a of
        (Inl e, a') \<Rightarrow> (Inl e, a')
      | (Inr None, a') \<Rightarrow> (Inr (Series None []), a')
      | (Inr (Some comp_col), a') \<Rightarrow> (label_sorted (df a') comp_col, a'))"

definition rating_distributions :: "analyzer \<Rightarrow> error + (string \<times> series) list" where
  "rating_distributions a =
     collect (\<lambda>col. case label_sorted (df a) col of
                      Inl e \<Rightarrow> Inl e
                    | Inr s \<Rightarrow> Inr (col, s)) (rating_cols a)"

definition sector_exposure :: "analyzer \<Rightarrow> error + series" where
  "sector_exposure a =
     (case sector_col a of
        None \<Rightarrow> Inr (Series None [])
      | Some c \<Rightarrow> value_sorted (df a) c)"

definition currency_exposure :: "analyzer \<Rightarrow> error + series" where
  "currency_exposure a =
     (case currency_col a of
        None \<Rightarrow> Inr (Series (Some ''No Currency Column Found'') [])
      | Some c \<Rightarrow> value_sorted (df a) c)"

definition head :: "nat \<Rightarrow> 'a list \<Rightarrow> 'a list" where
  "head n xs = take n xs"

definition categorical_breakdowns :: "nat \<Rightarrow> analyzer \<Rightarrow> error + (string \<times> series) list" where
  "categorical_breakdowns top_n a =
     collect (\<lambda>col. case value_sorted (df a) col of
                      Inl e \<Rightarrow> Inl e
                    | Inr s \<Rightarrow> Inr (col, Series (sname s) (head top_n (items s))))
       (filter (\<lambda>col. col \<notin> set [''Issuer Name'', ''Description''])
          (columns (filter (\<lambda>c. ctype c = Object) (df a))))"


subsection \<open>Top holdings and key-rate durations\<close>


definition krd_profile :: "analyzer \<Rightarrow> error + series" where
  "krd_profile a =
     (let krd_cols = filter (\<lambda>c. contains c ''KRD Contribution'') (columns (df a))
      in if krd_cols = [] then Inr (Series None [])
         else (case numeric_col (df a) ''Market Value'' of
                 Inl e \<Rightarrow> Inl e
               | Inr mv \<Rightarrow>
                   (case collect (\<lambda>c. case numeric_col (df a) c of
                                         Inl e \<Rightarrow> Inl e
                                       | Inr xs \<Rightarrow> Inr (Str c, weighted_avg xs mv)) krd_cols of
                      Inl e \<Rightarrow> Inl e
                    | Inr ws \<Rightarrow> Inr (Series None ws))))"


subsection \<open>Maturity buckets\<close>

definition bins :: "rat list" where
  "bins = [0, 3, 5, 10, 30, 100]"

definition labels :: "string list" where
  "labels = [''0-3y'', ''3-5y'', ''5-10y'', ''10-30y'', ''30y+'']"

text \<open>
  \<open>pd.cut(..., bins, labels, right=False)\<close> for one value: the label of the first interval
  \<open>[lo, hi)\<close> of consecutive bin edges that holds it, and missing outside all of them.
\<close>

fun cut_loop :: "rat \<Rightarrow> rat list \<Rightarrow> string list \<Rightarrow> cell" where
  "cut_loop y (lo # hi # bs) (l # ls) =
     (if lo \<le> y \<and> y < hi then Str l else cut_loop y (hi # bs) ls)"
| "cut_loop y bs ls = NA"

definition cut :: "rat option \<Rightarrow> cell" where
  "cut y = (case y of None \<Rightarrow> NA | Some r \<Rightarrow> cut_loop r bins labels)"

text \<open>
  Grouping by a categorical key with \<open>observed=False\<close>: one group for every category, in the
  order of the categories; rows whose key is missing belong to no group.
\<close>

definition groupby_cat :: "string list \<Rightarrow> cell list \<Rightarrow> rat option list \<Rightarrow> (cell \<times> rat) list" where
  "groupby_cat cats keys vals =
     map (\<lambda>l. (Str l, nansum (group_rows (Str l) (zip keys vals)))) cats"

definition years_to_maturity :: "conv \<Rightarrow> int \<Rightarrow> cell \<Rightarrow> rat option" where
  "years_to_maturity P today v =
     (case days_until P today v of None \<Rightarrow> None | Some n \<Rightarrow> Some (of_int n / 365))"

definition maturity_buckets :: "conv \<Rightarrow> int \<Rightarrow> analyzer \<Rightarrow> (error + series) \<times> analyzer" where
  "maturity_buckets P today a =
     (case get_col (df a) ''Maturity'' of
        None \<Rightarrow> (Inr (Series (Some ''No Maturity Column Found'') []), a)
      | Some m \<Rightarrow>
          (let d1 = set_col (df a) ''Maturity Date'' Datetime
                      (map (\<lambda>v. ts_cell (to_datetime P v)) (cells m));
               years = map (years_to_maturity P today) (cells m);
               d2 = set_col d1 ''Years to Maturity'' Float (map float_cell years);
               buckets = map cut years;
               d3 = set_col d2 ''Maturity Bucket'' Category buckets;
               a' = a\<lparr>df := d3\<rparr>
           in (case numeric_col d3 ''Market Value'' of
                 Inl e \<Rightarrow> (Inl e, a')
               | Inr mv \<Rightarrow>
                   (Inr (Series (Some ''Market Value'')
                           (percent (groupby_cat labels buckets mv))), a'))))"


subsection \<open>Cost\<close>




subsection \<open>Sessions\<close>

text \<open>
  One call of a query method, with the clock reading of the methods that ask for the
  current time, and the engine after the call. The methods that assign nothing to
  \<open>self\<close> leave it as it is.
\<close>

datatype call =
    Summary int
  | Combined_rating
  | Credit_distribution
  | Rating_distributions
  | Sector_exposure
  | Krd_profile
  | Top_holdings nat
  | Duration
  | Maturity_buckets int
  | Currency_exposure
  | Categorical_breakdowns nat

fun exec :: "conv \<Rightarrow> call \<Rightarrow> analyzer \<Rightarrow> analyzer" where
  "exec P Combined_rating a = snd (combined_rating a)"
| "exec P Credit_distribution a = snd (credit_distribution a)"
| "exec P (Maturity_buckets today) a = snd (maturity_buckets P today a)"
| "exec P c a = a"

fun run :: "conv \<Rightarrow> call list \<Rightarrow> analyzer \<Rightarrow> analyzer" where
  "run P [] a = a"
| "run P (c # cs) a = run P cs (exec P c a)"


section \<open>Reference definitions\<close>

text \<open>
  Matching that ignores the case of letters, said without \<open>lower\<close>: two characters are the
  same letter when they are equal or one is the capital of the other; \<open>caseless_in t s\<close> holds
  when \<open>s\<close> has a contiguous part that is \<open>t\<close> letter by letter.
\<close>

definition same_letter :: "char \<Rightarrow> char \<Rightarrow> bool" where
  "same_letter x y = (x = y \<or> (x, y) \<in> set case_table \<or> (y, x) \<in> set case_table)"

definition caseless_eq :: "string \<Rightarrow> string \<Rightarrow> bool" where
  "caseless_eq s t = list_all2 same_letter s t"

definition caseless_in :: "string \<Rightarrow> string \<Rightarrow> bool" where
  "caseless_in t s = (\<exists>pre u post. s = pre @ u @ post \<and> caseless_eq u t)"

text \<open>
  The composite rating as the specification words it: the rating columns that match an
  agency, by a case-insensitive substring test on the name, in column order; the agencies in
  priority order; the first value among them that is not missing.
\<close>

definition agency_columns :: "string \<Rightarrow> string list \<Rightarrow> string list" where
  "agency_columns p rcols = filter (\<lambda>col. sublist (lower p) (lower col)) rcols"

definition composite_spec :: "(string \<Rightarrow> cell) \<Rightarrow> string list \<Rightarrow> cell" where
  "composite_spec r rcols =
     (case find (\<lambda>v. v \<noteq> NA) (concat (map (\<lambda>p. map r (agency_columns p rcols)) priority)) of
        None \<Rightarrow> NA
      | Some v \<Rightarrow> v)"

definition cell_at :: "dataframe \<Rightarrow> nat \<Rightarrow> string \<Rightarrow> cell" where
  "cell_at d i col = (case row_at d i col of None \<Rightarrow> NA | Some v \<Rightarrow> v)"

definition composite_column :: "analyzer \<Rightarrow> cell list" where
  "composite_column a =
     map (\<lambda>i. composite_spec (cell_at (df a) i) (rating_cols a)) [0..<nrows (df a)]"





definition grouped_total :: "cell list \<Rightarrow> rat option list \<Rightarrow> rat" where
  "grouped_total keys vals = nansum (map snd (filter (\<lambda>r. fst r \<noteq> NA) (zip keys vals)))"


definition present_keys :: "cell list \<Rightarrow> rat option list \<Rightarrow> cell list" where
  "present_keys keys vals = remdups (map fst (filter (\<lambda>r. fst r \<noteq> NA) (zip keys vals)))"



text \<open>
  The share of a present key value: the market value of its rows over the market value of all
  rows with a present key, times 100; and the distribution of a key column made of them.
\<close>

definition share :: "cell list \<Rightarrow> rat option list \<Rightarrow> cell \<Rightarrow> flt" where
  "share keys vals k =
     fscale (fdiv (nansum (group_rows k (zip keys vals))) (grouped_total keys vals)) 100"

definition expected_shares :: "dataframe \<Rightarrow> string \<Rightarrow> (cell \<times> flt) list" where
  "expected_shares d key =
     (case get_col d key of
        None \<Rightarrow> []
      | Some k \<Rightarrow>
          (case numeric_col d ''Market Value'' of
             Inl e \<Rightarrow> []
           | Inr mv \<Rightarrow> map (\<lambda>k'. (k', share (cells k) mv k')) (present_keys (cells k) mv)))"



text \<open>
  The market-value-weighted average as the specification writes it, over row indices; a missing
  product or weight is left out of its sum. \<open>num_at\<close> reads the number at a row of a column.
\<close>

definition num_at :: "dataframe \<Rightarrow> string \<Rightarrow> nat \<Rightarrow> rat option" where
  "num_at d col i = (case row_at d i col of Some (Num r) \<Rightarrow> Some r | _ \<Rightarrow> None)"

definition weighted_mean_spec :: "(nat \<Rightarrow> rat option) \<Rightarrow> (nat \<Rightarrow> rat option) \<Rightarrow> nat \<Rightarrow> flt" where
  "weighted_mean_spec x w n =
     fdiv (\<Sum>i = 0..<n. case mul (x i) (w i) of None \<Rightarrow> 0 | Some r \<Rightarrow> r)
          (\<Sum>i = 0..<n. case w i of None \<Rightarrow> 0 | Some r \<Rightarrow> r)"

definition is_number :: "cell \<Rightarrow> bool" where
  "is_number v = (case v of NA \<Rightarrow> True | Num r \<Rightarrow> True | _ \<Rightarrow> False)"


fun cell_num :: "cell \<Rightarrow> rat option" where
  "cell_num (Num r) = Some r"
| "cell_num v = None"



section \<open>A sample portfolio\<close>

text \<open>
  Three positions with ratings of three agencies, a sector, a currency, a maturity, a
  duration and one key-rate tenor. The conversions read numbers and timestamps as they
  are and everything else as missing. The clock of the examples is day 20000 after the epoch.
\<close>

definition sample_conv :: conv where
  "sample_conv =
     \<lparr>to_numeric = (\<lambda>v. case v of Num r \<Rightarrow> Some r | _ \<Rightarrow> None),
      to_datetime = (\<lambda>v. case v of TS t \<Rightarrow> Some t | _ \<Rightarrow> None)\<rparr>"

definition sample_today :: int where
  "sample_today = 20000 * ns_per_day"

definition sample_frame :: dataframe where
  "sample_frame =
     [\<lparr>cname = ''Issuer Name'', ctype = Object,
        cells = [Str ''Acme'', Str ''Acme'', Str ''Zeta'']\<rparr>,
      \<lparr>cname = ''S&P Rating'', ctype = Object, cells = [Str ''A'', NA, Str ''BBB'']\<rparr>,
      \<lparr>cname = ''Fitch Rating'', ctype = Object, cells = [Str ''AA'', NA, NA]\<rparr>,
      \<lparr>cname = ''Moody Rating'', ctype = Object, cells = [NA, Str ''Baa1'', NA]\<rparr>,
      \<lparr>cname = ''GICS Sector'', ctype = Object, cells = [Str ''Tech'', NA, Str ''Energy'']\<rparr>,
      \<lparr>cname = ''FX Currency Code'', ctype = Object,
        cells = [Str ''USD'', Str ''USD'', Str ''EUR'']\<rparr>,
      \<lparr>cname = ''Market Value'', ctype = Float, cells = [Num 100, Num 300, Num 600]\<rparr>,
      \<lparr>cname = ''Maturity'', ctype = Datetime,
        cells = [TS ((20000 + 1095) * ns_per_day), TS ((20000 - 200) * ns_per_day),
                 TS ((20000 + 36500) * ns_per_day)]\<rparr>,
      \<lparr>cname = ''Duration'', ctype = Float, cells = [Num 2, Num 4, NA]\<rparr>,
      \<lparr>cname = ''KRD Contribution 2Y'', ctype = Float,
        cells = [Num (1 / 10), Num (2 / 10), NA]\<rparr>]"

definition sample :: analyzer where
  "sample = init sample_conv sample_frame ''USD Portfolio''"


text \<open>Column names in other letter cases.\<close>

definition shouting_frame :: dataframe where
  "shouting_frame =
     [\<lparr>cname = ''ISSUER NAME'', ctype = Object, cells = [Str ''Acme'']\<rparr>,
      \<lparr>cname = ''s&p rating'', ctype = Object, cells = [Str ''A'']\<rparr>,
      \<lparr>cname = ''MOODY RATING'', ctype = Object, cells = [Str ''A2'']\<rparr>,
      \<lparr>cname = ''fx CURRENCY code'', ctype = Object, cells = [Str ''USD'']\<rparr>,
      \<lparr>cname = ''Market Value'', ctype = Float, cells = [Num 100]\<rparr>]"

text \<open>
  Four positions for the maturity buckets: 1058 days (2.9 years), 1095 days (3 years),
  183 days in the past, and 36500 days (100 years) to maturity.
\<close>

definition century_frame :: dataframe where
  "century_frame =
     [\<lparr>cname = ''Market Value'', ctype = Float,
        cells = [Num 100, Num 200, Num 300, Num 400]\<rparr>,
      \<lparr>cname = ''Maturity'', ctype = Datetime,
        cells = [TS ((20000 + 1058) * ns_per_day), TS ((20000 + 1095) * ns_per_day),
                 TS ((20000 - 183) * ns_per_day), TS ((20000 + 36500) * ns_per_day)]\<rparr>]"

definition century :: analyzer where
  "century = init sample_conv century_frame ''Century''"





text \<open>Two positions with a two-year key-rate contribution.\<close>

definition krd_frame :: dataframe where
  "krd_frame =
     [\<lparr>cname = ''KRD Contribution 2Y'', ctype = Float, cells = [Num (10 / 100), Num (20 / 100)]\<rparr>,
      \<lparr>cname = ''Market Value'', ctype = Float, cells = [Num 100, Num 300]\<rparr>]"





text \<open>
  A market value beside a text column named ``Duration Bucket'', and a table with no market
  value.
\<close>

definition bucket_frame :: dataframe where
  "bucket_frame =
     [\<lparr>cname = ''Market Value'', ctype = Float, cells = [Num 100, Num 200]\<rparr>,
      \<lparr>cname = ''Duration Bucket'', ctype = Object, cells = [Str ''0-3y'', Str ''3-5y'']\<rparr>]"

definition buckets :: analyzer where
  "buckets = init sample_conv bucket_frame ''Buckets''"






section \<open>Properties of the resolver\<close>

text \<open>
  No capital has the bit 0x20 set, so a character with this bit is its own lower case; the
  evaluation of \<open>lower_char\<close> uses this.
\<close>

lemma case_table_capitals: "list_all (\<lambda>p. \<not> digit5 (fst p)) case_table"
  by code_simp

lemma lower_char_code [code]:
  "lower_char c = (if digit5 c then c
                   else (case map_of case_table c of None \<Rightarrow> c | Some d \<Rightarrow> d))"
proof (cases "digit5 c")
  case True
  with case_table_capitals have "c \<notin> fst ` set case_table"
    by (auto simp: list_all_iff)
  then have "map_of case_table c = None"
    by (simp add: map_of_eq_None_iff)
  with True show ?thesis by (simp add: lower_char_def)
next
  case False
  then show ?thesis by (simp add: lower_char_def)
qed

lemma starts_with_prefix: "starts_with s sub = prefix sub s"
  by (induction s sub rule: starts_with.induct) auto

lemma contains_sublist: "contains s sub = sublist sub s"
  by (induction s) (auto simp: starts_with_prefix sublist_Cons_right)

lemma case_table_fst: "distinct (map fst case_table)"
  by code_simp

lemma case_table_snd: "distinct (map snd case_table)"
  by code_simp

lemma case_table_disjoint: "list_all (\<lambda>x. x \<notin> set (map snd case_table)) (map fst case_table)"
  by code_simp

lemma case_table_lookup: "map_of case_table x = Some y \<longleftrightarrow> (x, y) \<in> set case_table"
  using case_table_fst by (rule map_of_eq_Some_iff)

lemma case_table_inj:
  assumes "(x, a) \<in> set case_table" "(y, a) \<in> set case_table"
  shows "x = y"
proof -
  from case_table_snd have "inj_on snd (set case_table)"
    by (simp add: distinct_map)
  from inj_onD [OF this, of "(x, a)" "(y, a)"] assms show ?thesis
    by simp
qed

lemma case_table_apart:
  assumes "(x, a) \<in> set case_table" "(a, b) \<in> set case_table"
  shows False
proof -
  from case_table_disjoint have "\<forall>p \<in> set case_table. fst p \<notin> snd ` set case_table"
    by (simp add: list_all_iff)
  with assms(2) have "a \<notin> snd ` set case_table" by force
  with assms(1) show False by force
qed

lemma lower_char_same_letter: "lower_char x = lower_char y \<longleftrightarrow> same_letter x y"
proof (cases "map_of case_table x")
  case None
  then have nx: "\<And>b. (x, b) \<notin> set case_table"
    by (metis case_table_lookup option.distinct(1))
  show ?thesis
  proof (cases "map_of case_table y")
    case None
    then have ny: "\<And>b. (y, b) \<notin> set case_table"
      by (metis case_table_lookup option.distinct(1))
    from \<open>map_of case_table x = None\<close> None nx ny show ?thesis
      by (simp add: lower_char_def same_letter_def)
  next
    case (Some b)
    then have yb: "(y, b) \<in> set case_table" by (simp add: case_table_lookup)
    have "x \<noteq> y" using nx yb by blast
    moreover have "(y, x) \<in> set case_table \<longleftrightarrow> b = x"
      using yb case_table_lookup Some by (metis option.inject)
    ultimately show ?thesis
      using \<open>map_of case_table x = None\<close> Some nx
      by (auto simp: lower_char_def same_letter_def)
  qed
next
  case (Some a)
  then have xa: "(x, a) \<in> set case_table" by (simp add: case_table_lookup)
  show ?thesis
  proof (cases "map_of case_table y")
    case None
    then have ny: "\<And>b. (y, b) \<notin> set case_table"
      by (metis case_table_lookup option.distinct(1))
    have "x \<noteq> y" using ny xa by blast
    moreover have "(x, y) \<in> set case_table \<longleftrightarrow> a = y"
      using xa case_table_lookup Some by (metis option.inject)
    ultimately show ?thesis
      using \<open>map_of case_table x = Some a\<close> None ny
      by (auto simp: lower_char_def same_letter_def)
  next
    case (Some b)
    then have yb: "(y, b) \<in> set case_table" by (simp add: case_table_lookup)
    have 1: "a = b \<Longrightarrow> x = y"
      using xa yb case_table_inj by blast
    have 2: "x = y \<Longrightarrow> a = b"
      using \<open>map_of case_table x = Some a\<close> Some by simp
    have 3: "(x, y) \<notin> set case_table"
      using yb case_table_apart by blast
    have 4: "(y, x) \<notin> set case_table"
      using xa case_table_apart by blast
    from 1 2 3 4 \<open>map_of case_table x = Some a\<close> Some show ?thesis
      by (auto simp: lower_char_def same_letter_def)
  qed
qed

lemma lower_caseless_eq: "lower s = lower t \<longleftrightarrow> caseless_eq s t"
  unfolding lower_def caseless_eq_def
proof (induction s arbitrary: t)
  case Nil
  show ?case by auto
next
  case (Cons x s)
  show ?case
    by (cases t) (auto simp: Cons lower_char_same_letter)
qed

lemma contains_caseless: "contains (lower c) (lower alias) \<longleftrightarrow> caseless_in alias c"
proof
  assume "contains (lower c) (lower alias)"
  then obtain pre post where "lower c = pre @ lower alias @ post"
    by (auto simp: contains_sublist sublist_def)
  then obtain p r where c: "c = p @ r" and r: "lower alias @ post = map lower_char r"
    unfolding lower_def map_eq_append_conv by blast
  from r obtain u q where "r = u @ q" "lower alias = map lower_char u"
    unfolding lower_def append_eq_map_conv by blast
  with c have "c = p @ u @ q" "lower u = lower alias"
    by (simp_all add: lower_def)
  then show "caseless_in alias c"
    unfolding caseless_in_def lower_caseless_eq [symmetric] by blast
next
  assume "caseless_in alias c"
  then obtain pre u post where "c = pre @ u @ post" "lower u = lower alias"
    unfolding caseless_in_def lower_caseless_eq [symmetric] by blast
  then have "lower c = lower pre @ lower alias @ lower post"
    by (simp add: lower_def)
  then show "contains (lower c) (lower alias)"
    unfolding contains_sublist sublist_def by blast
qed

lemma caseless_eq_sym: "caseless_eq s t \<Longrightarrow> caseless_eq t s"
  unfolding lower_caseless_eq [symmetric] by simp

lemma caseless_in_cong:
  assumes "caseless_eq c c'"
  shows "caseless_in alias c \<longleftrightarrow> caseless_in alias c'"
  using assms unfolding contains_caseless [symmetric] lower_caseless_eq [symmetric] by simp

text \<open>
  C9. Column resolution is a function of the column names alone. \<open>find_cols\<close> returns, in the
  original column order, exactly the columns whose name contains an alias of the role as a
  contiguous substring when the case of letters is ignored, so that two columns whose names
  differ in letter case only are resolved alike; the primary column is the first of them, or absent
  when no column matches. ``S&P Rating'' in any letter case resolves as a rating column and
  ``FX Currency Code'' in any letter case as a currency column.
\<close>

theorem column_resolution:
  "find_cols d role =
     filter (\<lambda>c. \<exists>alias \<in> set (alias_map role). caseless_in alias c) (columns d)
   \<and> subseq (find_cols d role) (columns d)
   \<and> (columns d' = columns d \<longrightarrow> find_cols d' role = find_cols d role)
   \<and> (get_primary_col (find_cols d role) = None \<longleftrightarrow>
        (\<forall>c \<in> set (columns d). \<forall>alias \<in> set (alias_map role). \<not> caseless_in alias c))
   \<and> (\<forall>c rest. find_cols d role = c # rest \<longrightarrow> get_primary_col (find_cols d role) = Some c)
   \<and> (\<forall>c c'. caseless_eq c c' \<and> c \<in> set (find_cols d role) \<and> c' \<in> set (columns d)
        \<longrightarrow> c' \<in> set (find_cols d role))
   \<and> (\<forall>c \<in> set [''S&P Rating'', ''s&p rating'', ''S&P RATING''].
        c \<in> set (columns d) \<longrightarrow> c \<in> set (find_cols d ''rating''))
   \<and> (\<forall>c \<in> set [''FX Currency Code'', ''fx currency code'', ''FX CURRENCY CODE''].
        c \<in> set (columns d) \<longrightarrow> c \<in> set (find_cols d ''currency''))"
proof -
  have m: "list_ex (\<lambda>alias. contains (lower c) (lower alias)) (alias_map r)
           = (\<exists>alias \<in> set (alias_map r). caseless_in alias c)" for c r
    by (simp add: list_ex_iff contains_caseless)
  have 1: "find_cols d role =
     filter (\<lambda>c. \<exists>alias \<in> set (alias_map role). caseless_in alias c) (columns d)"
    unfolding find_cols_def m ..
  have 2: "subseq (find_cols d role) (columns d)"
    by (simp add: find_cols_def)
  have 3: "columns d' = columns d \<longrightarrow> find_cols d' role = find_cols d role"
    by (simp add: find_cols_def)
  have 4: "get_primary_col (find_cols d role) = None \<longleftrightarrow>
        (\<forall>c \<in> set (columns d). \<forall>alias \<in> set (alias_map role). \<not> caseless_in alias c)"
  proof -
    have "get_primary_col (find_cols d role) = None \<longleftrightarrow> find_cols d role = []"
      by (simp add: get_primary_col_def split: list.splits)
    also have "\<dots> \<longleftrightarrow>
        (\<forall>c \<in> set (columns d). \<forall>alias \<in> set (alias_map role). \<not> caseless_in alias c)"
      unfolding 1 by (auto simp: filter_empty_conv)
    finally show ?thesis .
  qed
  have 5: "\<forall>c rest. find_cols d role = c # rest \<longrightarrow> get_primary_col (find_cols d role) = Some c"
    by (simp add: get_primary_col_def)
  have 6: "\<forall>c c'. caseless_eq c c' \<and> c \<in> set (find_cols d role) \<and> c' \<in> set (columns d)
        \<longrightarrow> c' \<in> set (find_cols d role)"
    unfolding 1 using caseless_in_cong by auto
  have r: "list_all (\<lambda>c. list_ex (\<lambda>alias. contains (lower c) (lower alias)) (alias_map ''rating''))
             [''S&P Rating'', ''s&p rating'', ''S&P RATING'']"
    by code_simp
  have c: "list_all (\<lambda>c. list_ex (\<lambda>alias. contains (lower c) (lower alias))
             (alias_map ''currency''))
             [''FX Currency Code'', ''fx currency code'', ''FX CURRENCY CODE'']"
    by code_simp
  have 7: "\<forall>c \<in> set [''S&P Rating'', ''s&p rating'', ''S&P RATING''].
        c \<in> set (columns d) \<longrightarrow> c \<in> set (find_cols d ''rating'')"
    using r unfolding list_all_iff find_cols_def by simp
  have 8: "\<forall>c \<in> set [''FX Currency Code'', ''fx currency code'', ''FX CURRENCY CODE''].
        c \<in> set (columns d) \<longrightarrow> c \<in> set (find_cols d ''currency'')"
    using c unfolding list_all_iff find_cols_def by simp
  show ?thesis by (intro conjI 1 2 3 4 5 6 7 8)
qed

theorem column_resolution_witness:
  "find_cols shouting_frame ''rating'' = [''s&p rating'', ''MOODY RATING'']
   \<and> get_primary_col (find_cols shouting_frame ''rating'') = Some ''s&p rating''
   \<and> ''s&p rating'' \<in> set (find_cols shouting_frame ''rating'')
   \<and> find_cols shouting_frame ''currency'' = [''fx CURRENCY code'']
   \<and> get_primary_col (find_cols shouting_frame ''sector'') = None
   \<and> filter (\<lambda>c. \<exists>alias \<in> set (alias_map ''issuer''). caseless_in alias c)
        (columns shouting_frame) = [''ISSUER NAME'']"
proof -
  note t = column_resolution [of shouting_frame _ shouting_frame]
  have r: "find_cols shouting_frame ''rating'' = [''s&p rating'', ''MOODY RATING'']"
    by code_simp
  have p: "get_primary_col (find_cols shouting_frame ''rating'') = Some ''s&p rating''"
    using t [of "''rating''", THEN conjunct2, THEN conjunct2, THEN conjunct2, THEN conjunct2,
        THEN conjunct1, rule_format, OF r] .
  have m: "''s&p rating'' \<in> set (columns shouting_frame)"
    by code_simp
  have "\<forall>c \<in> set [''S&P Rating'', ''s&p rating'', ''S&P RATING''].
        c \<in> set (columns shouting_frame) \<longrightarrow> c \<in> set (find_cols shouting_frame ''rating'')"
    using t [of "''rating''"] by (elim conjE)
  with m have a: "''s&p rating'' \<in> set (find_cols shouting_frame ''rating'')"
    by simp
  have c: "find_cols shouting_frame ''currency'' = [''fx CURRENCY code'']"
    by code_simp
  have s: "find_cols shouting_frame ''sector'' = []"
    by code_simp
  have n: "get_primary_col (find_cols shouting_frame ''sector'') = None"
    unfolding s by (simp add: get_primary_col_def)
  have i: "find_cols shouting_frame ''issuer'' = [''ISSUER NAME'']"
    by code_simp
  have f: "filter (\<lambda>c. \<exists>alias \<in> set (alias_map ''issuer''). caseless_in alias c)
        (columns shouting_frame) = [''ISSUER NAME'']"
    using t [of "''issuer''", THEN conjunct1] unfolding i by simp
  show ?thesis by (intro conjI r p a c n f)
qed


section \<open>Frames and the sample\<close>

lemma find_app: "find P (xs @ ys) = (case find P xs of None \<Rightarrow> find P ys | Some x \<Rightarrow> Some x)"
  by (induction xs) auto

lemma get_col_set_col_same:
  "get_col (set_col d n ty vs) n = Some \<lparr>cname = n, ctype = ty, cells = vs\<rparr>"
proof (cases "n \<in> set (columns d)")
  case True
  then show ?thesis
    by (induction d) (auto simp: get_col_def set_col_def columns_def)
next
  case False
  then have "find (\<lambda>c. cname c = n) d = None"
    by (auto simp: find_None_iff columns_def)
  with False show ?thesis
    by (simp add: get_col_def set_col_def find_app)
qed

lemma sample_eval:
  "sample = \<lparr>df = sample_frame, name = ''USD Portfolio'',
      rating_cols = [''S&P Rating'', ''Fitch Rating'', ''Moody Rating''],
      sector_col = Some ''GICS Sector'', issuer_col = Some ''Issuer Name'',
      currency_col = Some ''FX Currency Code''\<rparr>"
  by code_simp


section \<open>Composite rating\<close>

lemma scan_cols_find:
  "\<forall>col \<in> set rcols. row col = Some (r col) \<Longrightarrow>
   scan_cols row p rcols = Inr (find (\<lambda>v. v \<noteq> NA) (map r (agency_columns p rcols)))"
  by (induction rcols) (auto simp: agency_columns_def contains_sublist)

lemma pick_loop_find:
  "\<forall>col \<in> set rcols. row col = Some (r col) \<Longrightarrow>
   pick_loop row rcols ps =
     Inr (case find (\<lambda>v. v \<noteq> NA) (concat (map (\<lambda>p. map r (agency_columns p rcols)) ps)) of
            None \<Rightarrow> NA | Some v \<Rightarrow> v)"
proof (induction ps)
  case Nil
  show ?case by simp
next
  case (Cons p ps)
  have "scan_cols row p rcols = Inr (find (\<lambda>v. v \<noteq> NA) (map r (agency_columns p rcols)))"
    using Cons.prems by (rule scan_cols_find)
  with Cons show ?case by (simp add: find_app split: option.splits)
qed

lemma pick_rating_spec:
  "\<forall>col \<in> set (rating_cols a). row col = Some (r col) \<Longrightarrow>
   pick_rating a row = Inr (composite_spec r (rating_cols a))"
  unfolding pick_rating_def composite_spec_def by (rule pick_loop_find)

lemma collect_map:
  "\<forall>x \<in> set xs. f x = Inr (g x) \<Longrightarrow> collect f xs = Inr (map g xs)"
  by (induction xs) auto

lemma get_col_Some:
  "n \<in> set (columns d) \<Longrightarrow> \<exists>c. get_col d n = Some c \<and> c \<in> set d \<and> cname c = n"
  by (induction d) (auto simp: get_col_def columns_def)

lemma row_at_cell_at:
  assumes "col \<in> set (columns d)" "\<forall>c \<in> set d. length (cells c) = nrows d" "i < nrows d"
  shows "row_at d i col = Some (cell_at d i col)"
proof -
  from assms(1) obtain c where c: "get_col d col = Some c" "c \<in> set d"
    using get_col_Some by blast
  with assms show ?thesis by (simp add: row_at_def cell_at_def)
qed


lemma find_map_filter_eq:
  "x \<in> set xs \<Longrightarrow> P (f x) \<Longrightarrow> find P (map f (filter (\<lambda>c. c = x) xs)) = Some (f x)"
  by (induction xs) auto

lemma first_agency_wins:
  "find (\<lambda>v. v \<noteq> NA) (map r (agency_columns ''Fitch'' rcols)) = Some v \<Longrightarrow>
   composite_spec r rcols = v"
  by (simp add: composite_spec_def priority_def find_app)

lemma no_agency_value:
  "\<forall>p \<in> set ps. \<forall>col \<in> set (agency_columns p rcols). r col = NA \<Longrightarrow>
   find (\<lambda>v. v \<noteq> NA) (concat (map (\<lambda>p. map r (agency_columns p rcols)) ps)) = None"
  unfolding find_None_iff by auto

lemma example_any_order:
  assumes "set rcols = {''Moody'', ''S&P'', ''Fitch''}"
    and "r ''Moody'' = NA" "r ''S&P'' = Str ''A''" "r ''Fitch'' = Str ''AA''"
  shows "composite_spec r rcols = Str ''AA''"
proof -
  have f: "agency_columns ''Fitch'' rcols = filter (\<lambda>c. c = ''Fitch'') rcols"
    unfolding agency_columns_def
  proof (rule filter_cong [OF refl])
    fix c assume "c \<in> set rcols"
    then have "c = ''Moody'' \<or> c = ''S&P'' \<or> c = ''Fitch''" using assms(1) by auto
    then show "sublist (lower ''Fitch'') (lower c) = (c = ''Fitch'')"
      by (auto simp: contains_sublist [symmetric]) code_simp+
  qed
  have "''Fitch'' \<in> set rcols" using assms(1) by simp
  then have "find (\<lambda>v. v \<noteq> NA) (map r (agency_columns ''Fitch'' rcols)) = Some (Str ''AA'')"
    unfolding f using find_map_filter_eq [of "''Fitch''" rcols "\<lambda>v. v \<noteq> NA" r] assms(4)
    by simp
  then show ?thesis by (rule first_agency_wins)
qed

text \<open>
  C3. When the engine has rating columns, all of them columns of its frame, \<open>combined_rating\<close>
  stores for every row the first non-missing value met when the agencies Fitch, Moody, S&P, MSCI
  are tried in this order and, for each agency, the rating columns whose name matches it are
  scanned in column order. A row with Moody missing, S&P = A and Fitch = AA gets AA in every
  column order, and a row in which no agency's columns hold a value gets a missing rating.
\<close>

theorem combined_rating_priority:
  assumes "rating_cols a \<noteq> []"
    and "set (rating_cols a) \<subseteq> set (columns (df a))"
    and "\<forall>c \<in> set (df a). length (cells c) = nrows (df a)"
  shows "combined_rating a =
           (Inr (Some ''Composite Rating''),
            a\<lparr>df := set_col (df a) ''Composite Rating''
                        (infer_dtype (composite_column a)) (composite_column a)\<rparr>)
       \<and> (\<forall>row r. (\<forall>col \<in> set (rating_cols a). row col = Some (r col)) \<longrightarrow>
              pick_rating a row = Inr (composite_spec r (rating_cols a)))
       \<and> (\<forall>r rcols. set rcols = {''Moody'', ''S&P'', ''Fitch''} \<and> r ''Moody'' = NA
              \<and> r ''S&P'' = Str ''A'' \<and> r ''Fitch'' = Str ''AA'' \<longrightarrow>
              composite_spec r rcols = Str ''AA'')
       \<and> (\<forall>r rcols. (\<forall>p \<in> set priority. \<forall>col \<in> set (agency_columns p rcols). r col = NA) \<longrightarrow>
              composite_spec r rcols = NA)"
proof -
  have rows: "pick_rating a (row_at (df a) i) = Inr (composite_spec (cell_at (df a) i) (rating_cols a))"
    if "i < nrows (df a)" for i
  proof (rule pick_rating_spec, rule ballI)
    fix col assume "col \<in> set (rating_cols a)"
    with assms(2) have "col \<in> set (columns (df a))" by blast
    then show "row_at (df a) i col = Some (cell_at (df a) i col)"
      using assms(3) that by (rule row_at_cell_at)
  qed
  have "collect (\<lambda>i. pick_rating a (row_at (df a) i)) [0..<nrows (df a)]
          = Inr (map (\<lambda>i. composite_spec (cell_at (df a) i) (rating_cols a)) [0..<nrows (df a)])"
    by (rule collect_map) (simp add: rows)
  then have 1: "combined_rating a =
           (Inr (Some ''Composite Rating''),
            a\<lparr>df := set_col (df a) ''Composite Rating''
                        (infer_dtype (composite_column a)) (composite_column a)\<rparr>)"
    using assms(1) by (simp add: combined_rating_def composite_column_def)
  have 2: "\<forall>row r. (\<forall>col \<in> set (rating_cols a). row col = Some (r col)) \<longrightarrow>
              pick_rating a row = Inr (composite_spec r (rating_cols a))"
    using pick_rating_spec by blast
  have 3: "\<forall>r rcols. set rcols = {''Moody'', ''S&P'', ''Fitch''} \<and> r ''Moody'' = NA
              \<and> r ''S&P'' = Str ''A'' \<and> r ''Fitch'' = Str ''AA'' \<longrightarrow>
              composite_spec r rcols = Str ''AA''"
    using example_any_order by blast
  have 4: "\<forall>r rcols. (\<forall>p \<in> set priority. \<forall>col \<in> set (agency_columns p rcols). r col = NA) \<longrightarrow>
              composite_spec r rcols = NA"
    by (simp add: composite_spec_def no_agency_value)
  show ?thesis by (intro conjI 1 2 3 4)
qed

theorem combined_rating_priority_witness:
  "fst (combined_rating sample) = Inr (Some ''Composite Rating'')
   \<and> get_col (df (snd (combined_rating sample))) ''Composite Rating''
       = Some \<lparr>cname = ''Composite Rating'', ctype = Object,
                cells = [Str ''AA'', Str ''Baa1'', Str ''BBB'']\<rparr>
   \<and> composite_spec ((\<lambda>c. NA)(''S&P'' := Str ''A'', ''Fitch'' := Str ''AA''))
        [''Moody'', ''S&P'', ''Fitch''] = Str ''AA''
   \<and> composite_spec ((\<lambda>c. NA)(''S&P'' := Str ''A'', ''Fitch'' := Str ''AA''))
        [''S&P'', ''Fitch'', ''Moody''] = Str ''AA''"
proof -
  have h1: "rating_cols sample \<noteq> []"
    unfolding sample_eval by simp
  have h2: "set (rating_cols sample) \<subseteq> set (columns (df sample))"
    unfolding sample_eval by code_simp
  have h3: "\<forall>c \<in> set (df sample). length (cells c) = nrows (df sample)"
    unfolding sample_eval by code_simp
  have cc: "composite_column sample = [Str ''AA'', Str ''Baa1'', Str ''BBB'']"
    unfolding sample_eval by code_simp
  have ty: "infer_dtype [Str ''AA'', Str ''Baa1'', Str ''BBB''] = Object"
    by code_simp
  note t = combined_rating_priority [OF h1 h2 h3]
  from t have e: "combined_rating sample =
           (Inr (Some ''Composite Rating''),
            sample\<lparr>df := set_col (df sample) ''Composite Rating''
                        (infer_dtype (composite_column sample)) (composite_column sample)\<rparr>)"
    by (elim conjE)
  have a: "fst (combined_rating sample) = Inr (Some ''Composite Rating'')"
    by (simp only: e fst_conv)
  have b: "get_col (df (snd (combined_rating sample))) ''Composite Rating''
       = Some \<lparr>cname = ''Composite Rating'', ctype = Object,
                cells = [Str ''AA'', Str ''Baa1'', Str ''BBB'']\<rparr>"
    unfolding e cc ty by (simp add: get_col_set_col_same)
  from t have x: "\<forall>r rcols. set rcols = {''Moody'', ''S&P'', ''Fitch''} \<and> r ''Moody'' = NA
              \<and> r ''S&P'' = Str ''A'' \<and> r ''Fitch'' = Str ''AA'' \<longrightarrow>
              composite_spec r rcols = Str ''AA''"
    by (elim conjE)
  have c: "composite_spec ((\<lambda>c. NA)(''S&P'' := Str ''A'', ''Fitch'' := Str ''AA''))
        [''Moody'', ''S&P'', ''Fitch''] = Str ''AA''"
    by (rule x [rule_format]) (simp add: insert_commute)
  have d: "composite_spec ((\<lambda>c. NA)(''S&P'' := Str ''A'', ''Fitch'' := Str ''AA''))
        [''S&P'', ''Fitch'', ''Moody''] = Str ''AA''"
    by (rule x [rule_format]) (simp add: insert_commute)
  show ?thesis by (intro conjI a b c d)
qed


section \<open>Maturity buckets\<close>

lemma cut_intervals:
  "cut (Some y) =
     (if 0 \<le> y \<and> y < 3 then Str ''0-3y''
      else if 3 \<le> y \<and> y < 5 then Str ''3-5y''
      else if 5 \<le> y \<and> y < 10 then Str ''5-10y''
      else if 10 \<le> y \<and> y < 30 then Str ''10-30y''
      else if 30 \<le> y \<and> y < 100 then Str ''30y+''
      else NA)"
  by (simp add: cut_def bins_def labels_def)

text \<open>
  C1. The buckets of \<open>maturity_buckets\<close> are half-open and lower-inclusive, and a position
  already matured is in no bucket and not in the total; but the last bucket, labelled
  ``30y+'', ends at 100 years: a position with 100 years to maturity is dropped like a matured
  one. Of the four positions below (2.9, 3.0, -0.5 and 100 years, values 100, 200, 300, 400)
  only the first two are counted, and ``30y+'' is empty.
\<close>

theorem maturity_buckets_century_bond:
  "map (years_to_maturity sample_conv sample_today)
       [TS ((20000 + 1058) * ns_per_day), TS ((20000 + 1095) * ns_per_day),
        TS ((20000 - 183) * ns_per_day), TS ((20000 + 36500) * ns_per_day)]
     = [Some (29 / 10 - 1 / 730), Some 3, Some (- (183 / 365)), Some 100]
   \<and> cut (Some 100) = NA
   \<and> fst (maturity_buckets sample_conv sample_today century)
     = Inr (Series (Some ''Market Value'')
              [(Str ''0-3y'', Fin (100 / 3)), (Str ''3-5y'', Fin (200 / 3)),
               (Str ''5-10y'', Fin 0), (Str ''10-30y'', Fin 0), (Str ''30y+'', Fin 0)])"
proof -
  have 1: "map (years_to_maturity sample_conv sample_today)
       [TS ((20000 + 1058) * ns_per_day), TS ((20000 + 1095) * ns_per_day),
        TS ((20000 - 183) * ns_per_day), TS ((20000 + 36500) * ns_per_day)]
     = [Some (29 / 10 - 1 / 730), Some 3, Some (- (183 / 365)), Some 100]"
    by code_simp
  have 2: "cut (Some 100) = NA"
    by (simp add: cut_intervals)
  have 3: "fst (maturity_buckets sample_conv sample_today century)
     = Inr (Series (Some ''Market Value'')
              [(Str ''0-3y'', Fin (100 / 3)), (Str ''3-5y'', Fin (200 / 3)),
               (Str ''5-10y'', Fin 0), (Str ''10-30y'', Fin 0), (Str ''30y+'', Fin 0)])"
    by code_simp
  show ?thesis by (intro conjI 1 2 3)
qed


section \<open>Sorting and grouping\<close>

lemma set_insort_by: "set (insort_by lt x xs) = insert x (set xs)"
  by (induction xs) auto

lemma set_sort_by: "set (sort_by lt xs) = set xs"
  by (induction xs) (auto simp: sort_by_def set_insort_by)



lemma distinct_insort_by: "distinct (insort_by lt x xs) = (x \<notin> set xs \<and> distinct xs)"
  by (induction xs) (auto simp: set_insort_by)

lemma distinct_sort_by: "distinct (sort_by lt xs) = distinct xs"
proof (induction xs)
  case Nil
  show ?case by (simp add: sort_by_def)
next
  case (Cons x xs)
  have "sort_by lt (x # xs) = insort_by lt x (sort_by lt xs)"
    by (simp add: sort_by_def)
  with Cons show ?case
    by (simp add: distinct_insort_by set_sort_by)
qed






lemma sum_list_indicator:
  fixes v :: rat
  shows "distinct ks \<Longrightarrow> sum_list (map (\<lambda>k. if k0 = k then v else 0) ks) = (if k0 \<in> set ks then v else 0)"
  by (induction ks) auto

lemma nansum_Cons: "nansum (v # vs) = (case v of None \<Rightarrow> 0 | Some r \<Rightarrow> r) + nansum vs"
  by (simp add: nansum_def)

lemma sum_groups:
  assumes "distinct ks" and "\<forall>r \<in> set rows. fst r \<in> set ks"
  shows "sum_list (map (\<lambda>k. nansum (group_rows k rows)) ks) = nansum (map snd rows)"
  using assms(2)
proof (induction rows)
  case Nil
  show ?case by (simp add: group_rows_def nansum_def)
next
  case (Cons r rows)
  let ?v = "case snd r of None \<Rightarrow> 0 | Some x \<Rightarrow> x"
  have "nansum (group_rows k (r # rows)) = (if fst r = k then ?v else 0) + nansum (group_rows k rows)" for k
    by (simp add: group_rows_def nansum_Cons)
  then have "sum_list (map (\<lambda>k. nansum (group_rows k (r # rows))) ks)
      = sum_list (map (\<lambda>k. if fst r = k then ?v else 0) ks)
        + sum_list (map (\<lambda>k. nansum (group_rows k rows)) ks)"
    by (simp add: sum_list_addf)
  also have "sum_list (map (\<lambda>k. if fst r = k then ?v else 0) ks) = ?v"
    using assms(1) Cons.prems by (simp add: sum_list_indicator)
  also have "sum_list (map (\<lambda>k. nansum (group_rows k rows)) ks) = nansum (map snd rows)"
    using Cons by simp
  finally show ?case by (simp add: nansum_Cons)
qed

lemma groupby_sum_keys:
  "map fst (groupby_sum keys vals)
     = sort_by cell_less (remdups (map fst (filter (\<lambda>r. fst r \<noteq> NA) (zip keys vals))))"
  by (simp add: groupby_sum_def Let_def comp_def)

lemma groupby_sum_total:
  "sum_list (map snd (groupby_sum keys vals)) = grouped_total keys vals"
proof -
  let ?rows = "filter (\<lambda>r. fst r \<noteq> NA) (zip keys vals)"
  let ?ks = "sort_by cell_less (remdups (map fst ?rows))"
  have "sum_list (map snd (groupby_sum keys vals))
          = sum_list (map (\<lambda>k. nansum (group_rows k ?rows)) ?ks)"
    by (simp add: groupby_sum_def Let_def comp_def)
  also have "\<dots> = nansum (map snd ?rows)"
    by (rule sum_groups) (auto simp: distinct_sort_by set_sort_by)
  finally show ?thesis by (simp add: grouped_total_def)
qed






section \<open>Distributions\<close>

lemma collect_member:
  "collect f xs = Inr ys \<Longrightarrow> y \<in> set ys \<Longrightarrow> \<exists>x \<in> set xs. f x = Inr y"
proof (induction xs arbitrary: ys)
  case Nil
  then show ?case by simp
next
  case (Cons x xs)
  then show ?case
    by (auto split: sum.splits)
qed

lemma sort_index_Inr:
  "sort_index xs = Inr ys \<Longrightarrow> ys = sort_by (\<lambda>a b. cell_less (fst a) (fst b)) xs"
  by (auto simp: sort_index_def split: if_splits)

lemma label_sorted_shape:
  assumes "label_sorted d key = Inr s"
  shows "\<exists>k mv. get_col d key = Some k \<and> numeric_col d ''Market Value'' = Inr mv
           \<and> s = Series (Some ''Market Value'')
                 (sort_by (\<lambda>a b. cell_less (fst a) (fst b)) (percent (groupby_sum (cells k) mv)))"
  using assms
  by (auto simp: label_sorted_def group_mv_def dest: sort_index_Inr split: option.splits sum.splits)

lemma value_sorted_shape:
  assumes "value_sorted d key = Inr s"
  shows "\<exists>k mv. get_col d key = Some k \<and> numeric_col d ''Market Value'' = Inr mv
           \<and> s = Series (Some ''Market Value'') (sort_values_desc (percent (groupby_sum (cells k) mv)))"
  using assms by (auto simp: value_sorted_def group_mv_def split: option.splits sum.splits)

lemma credit_distribution_shape:
  assumes "rating_cols a \<noteq> []" "credit_distribution a = (Inr s, a')"
  shows "label_sorted (df a') ''Composite Rating'' = Inr s"
  using assms
  by (auto simp: credit_distribution_def combined_rating_def split: sum.splits option.splits prod.splits if_splits)

lemma rating_distributions_shape:
  assumes "rating_distributions a = Inr rs" "(c, s) \<in> set rs"
  shows "label_sorted (df a) c = Inr s"
proof -
  from collect_member [OF assms [unfolded rating_distributions_def]]
  obtain x where "(case label_sorted (df a) x of Inl e \<Rightarrow> Inl e | Inr s \<Rightarrow> Inr (x, s)) = Inr (c, s)"
    by blast
  then show ?thesis by (auto split: sum.splits)
qed

lemma sector_exposure_shape:
  assumes "sector_col a = Some c" "sector_exposure a = Inr s"
  shows "value_sorted (df a) c = Inr s"
  using assms by (simp add: sector_exposure_def)

lemma currency_exposure_shape:
  assumes "currency_col a = Some c" "currency_exposure a = Inr s"
  shows "value_sorted (df a) c = Inr s"
  using assms by (simp add: currency_exposure_def)

lemma categorical_breakdowns_shape:
  assumes "categorical_breakdowns n a = Inr rs" "(c, s) \<in> set rs"
  shows "\<exists>s0. value_sorted (df a) c = Inr s0 \<and> s = Series (sname s0) (head n (items s0))"
proof -
  from collect_member [OF assms [unfolded categorical_breakdowns_def]]
  obtain x where "(case value_sorted (df a) x of Inl e \<Rightarrow> Inl e
                    | Inr s \<Rightarrow> Inr (x, Series (sname s) (head n (items s)))) = Inr (c, s)"
    by blast
  then show ?thesis by (auto split: sum.splits)
qed




lemma group_rows_filter:
  "k \<noteq> NA \<Longrightarrow> group_rows k (filter (\<lambda>r. fst r \<noteq> NA) rows) = group_rows k rows"
  by (induction rows) (auto simp: group_rows_def)






section \<open>Missing keys\<close>

lemma present_keys_not_NA: "k \<in> set (present_keys keys vals) \<Longrightarrow> k \<noteq> NA"
  by (auto simp: present_keys_def)

lemma set_percent_groupby:
  "set (percent (groupby_sum keys vals))
     = (\<lambda>k. (k, share keys vals k)) ` set (present_keys keys vals)"
proof -
  let ?rows = "filter (\<lambda>r. fst r \<noteq> NA) (zip keys vals)"
  let ?ks = "sort_by cell_less (present_keys keys vals)"
  have gs: "groupby_sum keys vals = map (\<lambda>k. (k, nansum (group_rows k ?rows))) ?ks"
    by (simp add: groupby_sum_def present_keys_def Let_def)
  have "percent (groupby_sum keys vals)
          = map (\<lambda>k. (k, fscale (fdiv (nansum (group_rows k ?rows)) (grouped_total keys vals)) 100)) ?ks"
    unfolding percent_def groupby_sum_total unfolding gs by (simp add: comp_def)
  then have "set (percent (groupby_sum keys vals))
          = (\<lambda>k. (k, fscale (fdiv (nansum (group_rows k ?rows)) (grouped_total keys vals)) 100))
              ` set (present_keys keys vals)"
    by (simp add: set_sort_by)
  also have "\<dots> = (\<lambda>k. (k, share keys vals k)) ` set (present_keys keys vals)"
    by (rule image_cong) (auto simp: share_def group_rows_filter dest: present_keys_not_NA)
  finally show ?thesis .
qed

lemma NA_not_expected: "NA \<notin> fst ` set (expected_shares d key)"
  by (auto simp: expected_shares_def dest: present_keys_not_NA split: option.splits sum.splits)

lemma label_sorted_items:
  assumes "label_sorted d key = Inr s"
  shows "set (items s) = set (expected_shares d key)"
proof -
  from label_sorted_shape [OF assms] obtain k mv where
    k: "get_col d key = Some k" and mv: "numeric_col d ''Market Value'' = Inr mv"
    and s: "s = Series (Some ''Market Value'')
                 (sort_by (\<lambda>a b. cell_less (fst a) (fst b)) (percent (groupby_sum (cells k) mv)))"
    by blast
  show ?thesis
    by (simp add: s set_sort_by set_percent_groupby expected_shares_def k mv)
qed

lemma value_sorted_items:
  assumes "value_sorted d key = Inr s"
  shows "set (items s) = set (expected_shares d key)"
proof -
  from value_sorted_shape [OF assms] obtain k mv where
    k: "get_col d key = Some k" and mv: "numeric_col d ''Market Value'' = Inr mv"
    and s: "s = Series (Some ''Market Value'') (sort_values_desc (percent (groupby_sum (cells k) mv)))"
    by blast
  show ?thesis
    by (simp add: s sort_values_desc_def set_sort_by set_percent_groupby expected_shares_def k mv)
qed

text \<open>
  C4 (amended). In every categorical distribution method the rows whose grouping key is
  missing are dropped: the labels of the returned distribution are present key values, never
  the missing value, and the percentage of a label is its market value over the market value of
  the rows with a present key. (\<open>categorical_breakdowns\<close> returns a part of these entries.)
\<close>

theorem missing_keys_are_dropped:
  "(rating_cols a \<noteq> [] \<and> credit_distribution a = (Inr sc, ac) \<longrightarrow>
      set (items sc) = set (expected_shares (df ac) ''Composite Rating'')
      \<and> NA \<notin> fst ` set (items sc))
   \<and> (rating_distributions a = Inr rr \<and> (cr, sr) \<in> set rr \<longrightarrow>
      set (items sr) = set (expected_shares (df a) cr) \<and> NA \<notin> fst ` set (items sr))
   \<and> (sector_col a = Some cs \<and> sector_exposure a = Inr ss \<longrightarrow>
      set (items ss) = set (expected_shares (df a) cs) \<and> NA \<notin> fst ` set (items ss))
   \<and> (currency_col a = Some cu \<and> currency_exposure a = Inr su \<longrightarrow>
      set (items su) = set (expected_shares (df a) cu) \<and> NA \<notin> fst ` set (items su))
   \<and> (categorical_breakdowns top_n a = Inr rb \<and> (cb, sb) \<in> set rb \<longrightarrow>
      set (items sb) \<subseteq> set (expected_shares (df a) cb) \<and> NA \<notin> fst ` set (items sb))"
proof -
  have l: "set (items s) = set (expected_shares d key) \<and> NA \<notin> fst ` set (items s)"
    if "label_sorted d key = Inr s" for d key s
    using label_sorted_items [OF that] NA_not_expected [of d key] by simp
  have v: "set (items s) = set (expected_shares d key) \<and> NA \<notin> fst ` set (items s)"
    if "value_sorted d key = Inr s" for d key s
    using value_sorted_items [OF that] NA_not_expected [of d key] by simp
  have 1: "rating_cols a \<noteq> [] \<and> credit_distribution a = (Inr sc, ac) \<longrightarrow>
      set (items sc) = set (expected_shares (df ac) ''Composite Rating'')
      \<and> NA \<notin> fst ` set (items sc)"
    using credit_distribution_shape l by blast
  have 2: "rating_distributions a = Inr rr \<and> (cr, sr) \<in> set rr \<longrightarrow>
      set (items sr) = set (expected_shares (df a) cr) \<and> NA \<notin> fst ` set (items sr)"
    using rating_distributions_shape l by blast
  have 3: "sector_col a = Some cs \<and> sector_exposure a = Inr ss \<longrightarrow>
      set (items ss) = set (expected_shares (df a) cs) \<and> NA \<notin> fst ` set (items ss)"
    using sector_exposure_shape v by blast
  have 4: "currency_col a = Some cu \<and> currency_exposure a = Inr su \<longrightarrow>
      set (items su) = set (expected_shares (df a) cu) \<and> NA \<notin> fst ` set (items su)"
    using currency_exposure_shape v by blast
  have 5: "categorical_breakdowns top_n a = Inr rb \<and> (cb, sb) \<in> set rb \<longrightarrow>
      set (items sb) \<subseteq> set (expected_shares (df a) cb) \<and> NA \<notin> fst ` set (items sb)"
  proof (intro impI, elim conjE)
    assume h: "categorical_breakdowns top_n a = Inr rb" "(cb, sb) \<in> set rb"
    from categorical_breakdowns_shape [OF h] obtain s0 where
      s0: "value_sorted (df a) cb = Inr s0" and sb: "sb = Series (sname s0) (head top_n (items s0))"
      by blast
    have "set (items sb) \<subseteq> set (items s0)"
      by (simp add: sb head_def set_take_subset)
    with v [OF s0] show "set (items sb) \<subseteq> set (expected_shares (df a) cb)
        \<and> NA \<notin> fst ` set (items sb)"
      by auto
  qed
  show ?thesis by (intro conjI 1 2 3 4 5)
qed

theorem missing_keys_are_dropped_witness:
  "(\<exists>s a'. credit_distribution sample = (Inr s, a')
        \<and> set (items s) = set (expected_shares (df a') ''Composite Rating'')
        \<and> NA \<notin> fst ` set (items s))
   \<and> (\<exists>rs s. rating_distributions sample = Inr rs \<and> (''S&P Rating'', s) \<in> set rs
        \<and> set (items s) = set (expected_shares (df sample) ''S&P Rating'')
        \<and> NA \<notin> fst ` set (items s))
   \<and> (\<exists>s. sector_exposure sample = Inr s
        \<and> set (items s) = set (expected_shares (df sample) ''GICS Sector'')
        \<and> NA \<notin> fst ` set (items s))
   \<and> (\<exists>s. currency_exposure sample = Inr s
        \<and> set (items s) = set (expected_shares (df sample) ''FX Currency Code'')
        \<and> NA \<notin> fst ` set (items s))
   \<and> (\<exists>rs s. categorical_breakdowns 1 sample = Inr rs \<and> (''GICS Sector'', s) \<in> set rs
        \<and> set (items s) \<subseteq> set (expected_shares (df sample) ''GICS Sector'')
        \<and> NA \<notin> fst ` set (items s))"
proof -
  let ?M = "Some ''Market Value''"
  let ?S1 = "Series ?M [(Str ''AA'', Fin 10), (Str ''BBB'', Fin 60), (Str ''Baa1'', Fin 30)]"
  let ?S2 = "Series ?M [(Str ''A'', Fin (100 / 7)), (Str ''BBB'', Fin (600 / 7))]"
  let ?R2 = "[(''S&P Rating'', ?S2),
              (''Fitch Rating'', Series ?M [(Str ''AA'', Fin 100)]),
              (''Moody Rating'', Series ?M [(Str ''Baa1'', Fin 100)])]"
  let ?S3 = "Series ?M [(Str ''Energy'', Fin (600 / 7)), (Str ''Tech'', Fin (100 / 7))]"
  let ?S4 = "Series ?M [(Str ''EUR'', Fin 60), (Str ''USD'', Fin 40)]"
  let ?S5 = "Series ?M [(Str ''Energy'', Fin (600 / 7))]"
  let ?R5 = "[(''S&P Rating'', Series ?M [(Str ''BBB'', Fin (600 / 7))]),
              (''Fitch Rating'', Series ?M [(Str ''AA'', Fin 100)]),
              (''Moody Rating'', Series ?M [(Str ''Baa1'', Fin 100)]),
              (''GICS Sector'', ?S5),
              (''FX Currency Code'', Series ?M [(Str ''EUR'', Fin 60)])]"
  let ?cd = "credit_distribution sample"
  have r: "rating_cols sample \<noteq> []"
    unfolding sample_eval by simp
  have "fst ?cd = Inr ?S1"
    unfolding sample_eval by code_simp
  then have e1: "?cd = (Inr ?S1, snd ?cd)"
    by (simp add: prod_eq_iff)
  have "set (items ?S1) = set (expected_shares (df (snd ?cd)) ''Composite Rating'')
      \<and> NA \<notin> fst ` set (items ?S1)"
    by (rule missing_keys_are_dropped [where a = sample and sc = ?S1 and ac = "snd ?cd",
        THEN conjunct1, THEN mp])
      (intro conjI r e1)
  with e1 have 1: "\<exists>s a'. ?cd = (Inr s, a')
        \<and> set (items s) = set (expected_shares (df a') ''Composite Rating'')
        \<and> NA \<notin> fst ` set (items s)"
    by blast
  have e2: "rating_distributions sample = Inr ?R2"
    unfolding sample_eval by code_simp
  have m2: "(''S&P Rating'', ?S2) \<in> set ?R2"
    by simp
  have "set (items ?S2) = set (expected_shares (df sample) ''S&P Rating'')
      \<and> NA \<notin> fst ` set (items ?S2)"
    by (rule missing_keys_are_dropped [where a = sample and rr = ?R2 and cr = "''S&P Rating''"
          and sr = ?S2, THEN conjunct2, THEN conjunct1, THEN mp])
      (intro conjI e2 m2)
  then have f2: "set (items ?S2) = set (expected_shares (df sample) ''S&P Rating'')"
      "NA \<notin> fst ` set (items ?S2)"
    by blast+
  have 2: "\<exists>rs s. rating_distributions sample = Inr rs \<and> (''S&P Rating'', s) \<in> set rs
        \<and> set (items s) = set (expected_shares (df sample) ''S&P Rating'')
        \<and> NA \<notin> fst ` set (items s)"
    by (intro exI [of _ ?R2] exI [of _ ?S2] conjI e2 m2 f2)
  have c3: "sector_col sample = Some ''GICS Sector''"
    unfolding sample_eval by simp
  have e3: "sector_exposure sample = Inr ?S3"
    unfolding sample_eval by code_simp
  have "set (items ?S3) = set (expected_shares (df sample) ''GICS Sector'')
      \<and> NA \<notin> fst ` set (items ?S3)"
    by (rule missing_keys_are_dropped [where a = sample and cs = "''GICS Sector''" and ss = ?S3,
        THEN conjunct2, THEN conjunct2, THEN conjunct1, THEN mp])
      (intro conjI c3 e3)
  with e3 have 3: "\<exists>s. sector_exposure sample = Inr s
        \<and> set (items s) = set (expected_shares (df sample) ''GICS Sector'')
        \<and> NA \<notin> fst ` set (items s)"
    by blast
  have c4: "currency_col sample = Some ''FX Currency Code''"
    unfolding sample_eval by simp
  have e4: "currency_exposure sample = Inr ?S4"
    unfolding sample_eval by code_simp
  have "set (items ?S4) = set (expected_shares (df sample) ''FX Currency Code'')
      \<and> NA \<notin> fst ` set (items ?S4)"
    by (rule missing_keys_are_dropped [where a = sample and cu = "''FX Currency Code''"
          and su = ?S4,
        THEN conjunct2, THEN conjunct2, THEN conjunct2, THEN conjunct1, THEN mp])
      (intro conjI c4 e4)
  with e4 have 4: "\<exists>s. currency_exposure sample = Inr s
        \<and> set (items s) = set (expected_shares (df sample) ''FX Currency Code'')
        \<and> NA \<notin> fst ` set (items s)"
    by blast
  have e5: "categorical_breakdowns 1 sample = Inr ?R5"
    unfolding sample_eval by code_simp
  have m5: "(''GICS Sector'', ?S5) \<in> set ?R5"
    by simp
  have "set (items ?S5) \<subseteq> set (expected_shares (df sample) ''GICS Sector'')
      \<and> NA \<notin> fst ` set (items ?S5)"
    by (rule missing_keys_are_dropped [where a = sample and top_n = 1 and rb = ?R5
          and cb = "''GICS Sector''" and sb = ?S5,
        THEN conjunct2, THEN conjunct2, THEN conjunct2, THEN conjunct2, THEN mp])
      (intro conjI e5 m5)
  then have f5: "set (items ?S5) \<subseteq> set (expected_shares (df sample) ''GICS Sector'')"
      "NA \<notin> fst ` set (items ?S5)"
    by blast+
  have 5: "\<exists>rs s. categorical_breakdowns 1 sample = Inr rs \<and> (''GICS Sector'', s) \<in> set rs
        \<and> set (items s) \<subseteq> set (expected_shares (df sample) ''GICS Sector'')
        \<and> NA \<notin> fst ` set (items s)"
    by (intro exI [of _ ?R5] exI [of _ ?S5] conjI e5 m5 f5)
  show ?thesis by (intro conjI 1 2 3 4 5)
qed

text \<open>
  The second position of the sample has no sector and a market value of 300: the sector
  exposure has the groups Energy and Tech only, as shares of the other 700.
\<close>

theorem missing_sector_counterexample:
  "get_col (df sample) ''GICS Sector''
     = Some \<lparr>cname = ''GICS Sector'', ctype = Object, cells = [Str ''Tech'', NA, Str ''Energy'']\<rparr>
   \<and> get_col (df sample) ''Market Value''
     = Some \<lparr>cname = ''Market Value'', ctype = Float, cells = [Num 100, Num 300, Num 600]\<rparr>
   \<and> sector_col sample = Some ''GICS Sector''
   \<and> sector_exposure sample
     = Inr (Series (Some ''Market Value'')
              [(Str ''Energy'', Fin (600 / 7)), (Str ''Tech'', Fin (100 / 7))])"
  unfolding sample_eval by code_simp


section \<open>Percentages\<close>











section \<open>Key-rate duration profile\<close>

lemma collect_as_float:
  "\<forall>v \<in> set vs. is_number v \<Longrightarrow> collect as_float vs = Inr (map cell_num vs)"
proof (rule collect_map, rule ballI)
  fix v assume "\<forall>v \<in> set vs. is_number v" "v \<in> set vs"
  then have "is_number v" by blast
  then show "as_float v = Inr (cell_num v)"
    by (cases v) (auto simp: is_number_def)
qed

lemma nansum_nth:
  "nansum vs = (\<Sum>i = 0..<length vs. case vs ! i of None \<Rightarrow> 0 | Some r \<Rightarrow> r)"
  unfolding nansum_def by (simp add: sum_list_sum_nth)

lemma weighted_avg_spec:
  assumes "length xs = n" "length ws = n"
    and "\<forall>i < n. xs ! i = f i" "\<forall>i < n. ws ! i = g i"
  shows "weighted_avg xs ws = weighted_mean_spec f g n"
proof -
  have "nansum (map (\<lambda>(x, w). mul x w) (zip xs ws))
          = (\<Sum>i = 0..<n. case mul (f i) (g i) of None \<Rightarrow> 0 | Some r \<Rightarrow> r)"
    unfolding nansum_nth using assms by (auto intro!: sum.cong)
  moreover have "nansum ws = (\<Sum>i = 0..<n. case g i of None \<Rightarrow> 0 | Some r \<Rightarrow> r)"
    unfolding nansum_nth using assms by (auto intro!: sum.cong)
  ultimately show ?thesis
    by (simp add: weighted_avg_def weighted_mean_spec_def)
qed

lemma numeric_col_num_at:
  assumes "col \<in> set (columns d)"
    and "\<forall>c \<in> set d. length (cells c) = nrows d"
    and "\<forall>c \<in> set d. cname c = col \<longrightarrow> (\<forall>v \<in> set (cells c). is_number v)"
  shows "\<exists>xs. numeric_col d col = Inr xs \<and> length xs = nrows d
           \<and> (\<forall>i < nrows d. xs ! i = num_at d col i)"
proof -
  from get_col_Some [OF assms(1)] obtain c where
    c: "get_col d col = Some c" "c \<in> set d" "cname c = col" by blast
  with assms(3) have num: "\<forall>v \<in> set (cells c). is_number v" by blast
  from c assms(2) have len: "length (cells c) = nrows d" by blast
  have "numeric_col d col = Inr (map cell_num (cells c))"
    by (simp add: numeric_col_def c collect_as_float [OF num])
  moreover have "map cell_num (cells c) ! i = num_at d col i" if "i < nrows d" for i
  proof -
    from that len have i: "i < length (cells c)" by simp
    then have "is_number (cells c ! i)" using num by simp
    then show ?thesis
      using i by (cases "cells c ! i") (auto simp: num_at_def row_at_def c is_number_def)
  qed
  ultimately show ?thesis using len by auto
qed

lemma krd_profile_spec:
  assumes len: "\<forall>c \<in> set (df a). length (cells c) = nrows (df a)"
    and mvc: "''Market Value'' \<in> set (columns (df a))"
    and num: "\<forall>c \<in> set (df a). cname c = ''Market Value'' \<or> sublist ''KRD Contribution'' (cname c)
                \<longrightarrow> (\<forall>v \<in> set (cells c). is_number v)"
  shows "krd_profile a =
           Inr (Series None
              (map (\<lambda>c. (Str c, weighted_mean_spec (num_at (df a) c)
                                   (num_at (df a) ''Market Value'') (nrows (df a))))
                 (filter (\<lambda>c. sublist ''KRD Contribution'' c) (columns (df a)))))"
proof -
  let ?d = "df a"
  let ?krd = "filter (\<lambda>c. sublist ''KRD Contribution'' c) (columns ?d)"
  let ?g = "\<lambda>c. (Str c, weighted_mean_spec (num_at ?d c) (num_at ?d ''Market Value'') (nrows ?d))"
  have krd: "filter (\<lambda>c. contains c ''KRD Contribution'') (columns ?d) = ?krd"
    by (simp add: contains_sublist)
  from numeric_col_num_at [OF mvc len] num obtain mv where
    mv: "numeric_col ?d ''Market Value'' = Inr mv" "length mv = nrows ?d"
      "\<forall>i < nrows ?d. mv ! i = num_at ?d ''Market Value'' i"
    by blast
  have each: "(case numeric_col ?d c of Inl e \<Rightarrow> Inl e
               | Inr xs \<Rightarrow> Inr (Str c, weighted_avg xs mv)) = Inr (?g c)"
    if "c \<in> set ?krd" for c
  proof -
    from that have c: "c \<in> set (columns ?d)" "sublist ''KRD Contribution'' c" by auto
    from numeric_col_num_at [OF c(1) len] num c(2) obtain xs where
      xs: "numeric_col ?d c = Inr xs" "length xs = nrows ?d"
        "\<forall>i < nrows ?d. xs ! i = num_at ?d c i"
      by blast
    have "weighted_avg xs mv
            = weighted_mean_spec (num_at ?d c) (num_at ?d ''Market Value'') (nrows ?d)"
      by (rule weighted_avg_spec) (simp_all add: xs mv)
    then show ?thesis by (simp add: xs)
  qed
  have "collect (\<lambda>c. case numeric_col ?d c of Inl e \<Rightarrow> Inl e
                        | Inr xs \<Rightarrow> Inr (Str c, weighted_avg xs mv)) ?krd = Inr (map ?g ?krd)"
    by (rule collect_map) (simp add: each)
  then show ?thesis
    unfolding krd_profile_def krd Let_def by (simp add: mv)
qed

text \<open>
  C8. On a frame whose columns have one length, with a numeric market value and numeric KRD
  contribution columns, \<open>krd_profile\<close> returns, for every column whose name contains
  ``KRD Contribution'' and in the order of the columns, the sum over all rows of contribution
  times market value divided by the sum of the market values (missing terms left out of the
  sums). With no such column the result is empty. Contributions 0.10 and 0.20 with market
  values 100 and 300 give 0.175.
\<close>

theorem krd_profile_weighted_average:
  "((\<forall>c \<in> set (df a). length (cells c) = nrows (df a))
      \<and> ''Market Value'' \<in> set (columns (df a))
      \<and> (\<forall>c \<in> set (df a). cname c = ''Market Value'' \<or> sublist ''KRD Contribution'' (cname c)
            \<longrightarrow> (\<forall>v \<in> set (cells c). is_number v))
     \<longrightarrow> krd_profile a =
           Inr (Series None
              (map (\<lambda>c. (Str c, weighted_mean_spec (num_at (df a) c)
                                   (num_at (df a) ''Market Value'') (nrows (df a))))
                 (filter (\<lambda>c. sublist ''KRD Contribution'' c) (columns (df a))))))
   \<and> (filter (\<lambda>c. sublist ''KRD Contribution'' c) (columns (df a)) = []
     \<longrightarrow> krd_profile a = Inr (Series None []))
   \<and> krd_profile (init sample_conv krd_frame ''Two rows'')
       = Inr (Series None [(Str ''KRD Contribution 2Y'', Fin (175 / 1000))])"
proof -
  have 1: "(\<forall>c \<in> set (df a). length (cells c) = nrows (df a))
      \<and> ''Market Value'' \<in> set (columns (df a))
      \<and> (\<forall>c \<in> set (df a). cname c = ''Market Value'' \<or> sublist ''KRD Contribution'' (cname c)
            \<longrightarrow> (\<forall>v \<in> set (cells c). is_number v))
     \<longrightarrow> krd_profile a =
           Inr (Series None
              (map (\<lambda>c. (Str c, weighted_mean_spec (num_at (df a) c)
                                   (num_at (df a) ''Market Value'') (nrows (df a))))
                 (filter (\<lambda>c. sublist ''KRD Contribution'' c) (columns (df a)))))"
    using krd_profile_spec by blast
  have 2: "filter (\<lambda>c. sublist ''KRD Contribution'' c) (columns (df a)) = []
     \<longrightarrow> krd_profile a = Inr (Series None [])"
    by (simp add: krd_profile_def contains_sublist)
  have 3: "krd_profile (init sample_conv krd_frame ''Two rows'')
       = Inr (Series None [(Str ''KRD Contribution 2Y'', Fin (175 / 1000))])"
    by code_simp
  show ?thesis by (intro conjI 1 2 3)
qed

theorem krd_profile_weighted_average_witness:
  "krd_profile sample
     = Inr (Series None
         [(Str ''KRD Contribution 2Y'',
           weighted_mean_spec (num_at (df sample) ''KRD Contribution 2Y'')
             (num_at (df sample) ''Market Value'') 3)])
   \<and> weighted_mean_spec (num_at (df sample) ''KRD Contribution 2Y'')
             (num_at (df sample) ''Market Value'') 3 = Fin (7 / 100)
   \<and> krd_profile century = Inr (Series None [])"
proof -
  have h1: "\<forall>c \<in> set (df sample). length (cells c) = nrows (df sample)"
    unfolding sample_eval by code_simp
  have h2: "''Market Value'' \<in> set (columns (df sample))"
    unfolding sample_eval by code_simp
  have h3: "\<forall>c \<in> set (df sample).
              cname c = ''Market Value'' \<or> sublist ''KRD Contribution'' (cname c)
                \<longrightarrow> (\<forall>v \<in> set (cells c). is_number v)"
    unfolding sample_eval by code_simp
  have n: "nrows (df sample) = 3"
    unfolding sample_eval by code_simp
  have k: "filter (\<lambda>c. sublist ''KRD Contribution'' c) (columns (df sample))
             = [''KRD Contribution 2Y'']"
    unfolding sample_eval by code_simp
  have "krd_profile sample =
           Inr (Series None
              (map (\<lambda>c. (Str c, weighted_mean_spec (num_at (df sample) c)
                                   (num_at (df sample) ''Market Value'') (nrows (df sample))))
                 (filter (\<lambda>c. sublist ''KRD Contribution'' c) (columns (df sample)))))"
    by (rule krd_profile_weighted_average [where a = sample, THEN conjunct1, THEN mp])
      (intro conjI h1 h2 h3)
  then have 1: "krd_profile sample
     = Inr (Series None
         [(Str ''KRD Contribution 2Y'',
           weighted_mean_spec (num_at (df sample) ''KRD Contribution 2Y'')
             (num_at (df sample) ''Market Value'') 3)])"
    unfolding n k by simp
  have 2: "weighted_mean_spec (num_at (df sample) ''KRD Contribution 2Y'')
             (num_at (df sample) ''Market Value'') 3 = Fin (7 / 100)"
    unfolding sample_eval by code_simp
  have e: "filter (\<lambda>c. sublist ''KRD Contribution'' c) (columns (df century)) = []"
    by code_simp
  have 3: "krd_profile century = Inr (Series None [])"
    by (rule krd_profile_weighted_average [where a = century, THEN conjunct2, THEN conjunct1,
          THEN mp]) (rule e)
  show ?thesis by (intro conjI 1 2 3)
qed


section \<open>Absent columns and hard failures\<close>



lemma as_float_float_cell: "as_float (float_cell x) = Inr x"
  by (cases x) (auto simp: float_cell_def)

lemma collect_float_cells:
  "collect as_float (map (\<lambda>v. float_cell (f v)) vs) = Inr (map f vs)"
  by (induction vs) (auto simp: as_float_float_cell)




















section \<open>Repeated calls\<close>


















end
